theory Spec2Isabelle
  imports Complex_Main
begin

section \<open>Z-factor correlation dispatch (\<^verbatim>\<open>z_corellation_function/value.py\<close>)\<close>

text \<open>
  A shallow embedding of \<^verbatim>\<open>calc_z\<close> and its helpers. Python floats are read as
  real numbers (no rounding, no NaN), \<^verbatim>\<open>None\<close>-able arguments as options, raised
  exceptions as the left summand of a sum type.

  The correlation functions (\<^verbatim>\<open>DAK\<close>, \<^verbatim>\<open>hall_yarborough\<close>, \<^verbatim>\<open>londono\<close>,
  \<^verbatim>\<open>kareem\<close>), the pseudo-critical classes (\<^verbatim>\<open>Piper\<close>, \<^verbatim>\<open>Sutton\<close>),
  \<^verbatim>\<open>scipy.optimize.newton\<close> and the iteration order of a Python \<^verbatim>\<open>set\<close> are imported
  by the module and not defined in it; they are the fields of the record \<open>extern\<close>, and
  every function that reaches one of them takes the record as its first argument.
\<close>

subsection \<open>Values, exceptions, arguments\<close>

datatype error =
    KeyError string       \<comment> \<open>\<^verbatim>\<open>raise KeyError(msg)\<close>\<close>
  | RuntimeError string   \<comment> \<open>\<^verbatim>\<open>raise RuntimeError(msg)\<close>\<close>
  | Raised string         \<comment> \<open>any exception coming out of an imported function\<close>

datatype pyval = PyNone | PyFloat real | PyInt int | PyBool bool | PyStr string

type_synonym pydict = "string \<rightharpoonup> pyval"

text \<open>A correlation function: \<^verbatim>\<open>f(Z=None, Pr=None, Tr=None)\<close>.\<close>

type_synonym zfunc = "real option \<Rightarrow> real \<Rightarrow> real \<Rightarrow> error + real"

text \<open>The keyword arguments handed to \<^verbatim>\<open>_initialize_Tr_and_Pr\<close>.\<close>

record pc_args =
  pc_sg :: "real option"
  pc_P :: "real option"
  pc_T :: "real option"
  pc_Tr :: "real option"
  pc_Pr :: "real option"
  pc_H2S :: "real option"
  pc_CO2 :: "real option"
  pc_N2 :: "real option"
  pc_ignore_conflict :: bool
  pc_kwargs :: pydict

text \<open>
  \<open>Piper_init\<close> and \<open>Sutton_init\<close> stand for creating an instance and calling its
  \<^verbatim>\<open>_initialize_Tr_and_Pr\<close>: the result is \<^verbatim>\<open>(Tr, Pr)\<close> together with the instance's
  \<^verbatim>\<open>ps_props\<close> attribute after the call. \<open>newton f x0 (Pr, Tr) kw\<close> stands for
  \<^verbatim>\<open>optimize.newton(f, x0, args=(Pr, Tr), **kw)\<close>, and \<open>list_set xs\<close> for
  \<^verbatim>\<open>list(set(xs))\<close>.
\<close>

record extern =
  DAK :: zfunc
  hall_yarborough :: zfunc
  londono :: zfunc
  kareem :: zfunc
  newton :: "zfunc \<Rightarrow> real \<Rightarrow> real \<times> real \<Rightarrow> pydict \<Rightarrow> error + real"
  list_set :: "real list \<Rightarrow> real list"
  Piper_init :: "pc_args \<Rightarrow> error + real \<times> real \<times> pydict"
  Sutton_init :: "pc_args \<Rightarrow> error + real \<times> real \<times> pydict"

text \<open>
  Python fixes no iteration order for a set; all that \<^verbatim>\<open>list(set(xs))\<close> promises is a
  list without repetitions holding the elements of \<open>xs\<close>.
\<close>

definition set_order_ok :: "(real list \<Rightarrow> real list) \<Rightarrow> bool" where
  "set_order_ok f \<longleftrightarrow> (\<forall>xs. distinct (f xs) \<and> set (f xs) = set xs)"

text \<open>The parameters of \<^verbatim>\<open>calc_z\<close>, with their defaults in \<open>calc_z_defaults\<close>.\<close>

record calc_z_args =
  arg_sg :: "real option"
  arg_P :: "real option"
  arg_T :: "real option"
  arg_H2S :: "real option"
  arg_CO2 :: "real option"
  arg_N2 :: "real option"
  arg_Pr :: "real option"
  arg_Tr :: "real option"
  arg_pmodel :: string
  arg_zmodel :: string
  arg_guess :: "real option"
  arg_newton_kwargs :: "pydict option"
  arg_smart_guess :: "bool option"
  arg_ps_props :: bool
  arg_ignore_conflict :: bool
  arg_kwargs :: pydict

definition calc_z_defaults :: calc_z_args where
  "calc_z_defaults = \<lparr>arg_sg = None, arg_P = None, arg_T = None, arg_H2S = None,
     arg_CO2 = None, arg_N2 = None, arg_Pr = None, arg_Tr = None,
     arg_pmodel = ''piper'', arg_zmodel = ''DAK'', arg_guess = None,
     arg_newton_kwargs = None, arg_smart_guess = None, arg_ps_props = False,
     arg_ignore_conflict = False, arg_kwargs = Map.empty\<rparr>"

datatype calc_z_result = Z_value real | Props pydict

subsection \<open>Model registry and working ranges\<close>

definition models :: "extern \<Rightarrow> string \<rightharpoonup> zfunc" where
  "models env = [''DAK'' \<mapsto> DAK env, ''hall_yarborough'' \<mapsto> hall_yarborough env,
     ''londono'' \<mapsto> londono env, ''kareem'' \<mapsto> kareem env]"

record model_range =
  Tr_range :: "real \<times> real"
  Pr_range :: "real \<times> real"

definition MODEL_RANGES :: "string \<rightharpoonup> model_range" where
  "MODEL_RANGES = [
     ''DAK'' \<mapsto> \<lparr>Tr_range = (1, 3), Pr_range = (2 / 10, 30)\<rparr>,
     ''hall_yarborough'' \<mapsto> \<lparr>Tr_range = (1, 3), Pr_range = (2 / 10, 205 / 10)\<rparr>,
     ''londono'' \<mapsto> \<lparr>Tr_range = (1, 3), Pr_range = (2 / 10, 30)\<rparr>,
     ''kareem'' \<mapsto> \<lparr>Tr_range = (1, 3), Pr_range = (2 / 10, 15)\<rparr>]"

text \<open>
  \<^verbatim>\<open>_check_working_Pr_Tr_range\<close>. \<open>Pr\<close> and \<open>Tr\<close> are the elements of the numpy
  arguments (a scalar is a single element); \<^verbatim>\<open>.all()\<close> is \<open>list_all\<close>. A name
  missing from \<^verbatim>\<open>MODEL_RANGES\<close> raises \<^verbatim>\<open>KeyError\<close> at the first subscript.
\<close>

definition check_working_Pr_Tr_range :: "real list \<Rightarrow> real list \<Rightarrow> string \<Rightarrow> error + bool" where
  "check_working_Pr_Tr_range Pr Tr zmodel_str =
     (case MODEL_RANGES zmodel_str of
        None \<Rightarrow> Inl (KeyError zmodel_str)
      | Some r \<Rightarrow>
          let Pr_is_in_range = list_all (\<lambda>p. p \<ge> fst (Pr_range r) \<and> p \<le> snd (Pr_range r)) Pr;
              Tr_is_in_range = list_all (\<lambda>t. t \<ge> fst (Tr_range r) \<and> t \<le> snd (Tr_range r)) Tr
          in Inr (Pr_is_in_range \<and> Tr_is_in_range))"

definition zmodels_ks :: string where
  \<open>zmodels_ks = ''["DAK", "hall_yarborough", "londono", "kareem"]''\<close>

definition pmodels_ks :: string where
  \<open>pmodels_ks = ''["sutton", "piper"]''\<close>

definition get_z_model :: "extern \<Rightarrow> string \<Rightarrow> error + zfunc" where
  \<open>get_z_model env model =
     (case models env model of
        None \<Rightarrow> Inl (KeyError (''Z-factor model "'' @ model @
                 ''" is not implemented. Choose from the list of available models: '' @ zmodels_ks))
      | Some f \<Rightarrow> Inr f)\<close>

subsection \<open>The guess list\<close>

text \<open>\<^verbatim>\<open>min(t, key=...)\<close> on a non-empty list \<open>x # xs\<close>: the first element of least key.\<close>

fun py_min_key :: "('a \<Rightarrow> real) \<Rightarrow> 'a \<Rightarrow> 'a list \<Rightarrow> 'a" where
  "py_min_key key best [] = best"
| "py_min_key key best (x # xs) =
     (if key x < key best then py_min_key key x xs else py_min_key key best xs)"

text \<open>
  The \<^verbatim>\<open>while len(t) > 0\<close> loop of \<^verbatim>\<open>_construct_guess_list_order\<close>;
  \<^verbatim>\<open>t.pop(t.index(match))\<close> removes the first occurrence of \<open>match\<close>. The counter
  \<^verbatim>\<open>count\<close> is never read and is left out.
\<close>

function reorder_loop :: "real \<Rightarrow> real list \<Rightarrow> real list \<Rightarrow> real list" where
  "reorder_loop guess t reordered =
     (case t of
        [] \<Rightarrow> reordered
      | x # xs \<Rightarrow>
          let match = py_min_key (\<lambda>x. \<bar>x - guess\<bar>) x xs
          in reorder_loop guess (remove1 match t) (reordered @ [match]))"
  by pat_completeness auto
termination
proof (relation "measure (\<lambda>(guess, t, reordered). length t)")
  show "wf (measure (\<lambda>(guess, t, reordered). length t))" by simp
next
  fix guess :: real and t reordered :: "real list" and x xs match
  assume t: "t = x # xs" and m: "match = py_min_key (\<lambda>x. \<bar>x - guess\<bar>) x xs"
  have mem: "py_min_key key b ys \<in> set (b # ys)" for key :: "real \<Rightarrow> real" and b ys
    by (induction ys arbitrary: b) auto
  have "match \<in> set t" unfolding t m by (rule mem)
  then have "length (remove1 match t) < length t"
    using length_pos_if_in_set [of match t] by (simp add: length_remove1)
  then show "((guess, remove1 match t, reordered @ [match]), (guess, t, reordered))
      \<in> measure (\<lambda>(guess, t, reordered). length t)" by simp
qed

definition ladder :: "real list" where
  "ladder = [1 / 10, 2 / 10, 3 / 10, 4 / 10, 5 / 10, 6 / 10, 7 / 10, 8 / 10, 9 / 10, 1]"

definition construct_guess_list_order :: "extern \<Rightarrow> real \<Rightarrow> real list" where
  "construct_guess_list_order env guess =
     (let t = ladder;
          reordered = reorder_loop guess t [guess]
      in list_set env reordered)"

subsection \<open>\<^verbatim>\<open>_calc_z_explicit_implicit_helper\<close>\<close>

text \<open>Lines 94 to 103: the defaults of \<^verbatim>\<open>guess\<close> and \<^verbatim>\<open>smart_guess\<close>.\<close>

definition default_guess :: "real option \<Rightarrow> real \<Rightarrow> real" where
  "default_guess guess Pr =
     (case guess of
        None \<Rightarrow> if Pr < 15 then 9 / 10 else 2
      | Some g \<Rightarrow> g)"

definition default_smart_guess :: "bool option \<Rightarrow> bool" where
  "default_smart_guess smart_guess = (case smart_guess of None \<Rightarrow> True | Some b \<Rightarrow> b)"

text \<open>
  Lines 107 to 117: the list \<^verbatim>\<open>guesses\<close>. The call of the smart-guess model is outside
  the \<^verbatim>\<open>try\<close> block, so what it raises leaves the helper.
\<close>

definition guess_candidates :: "extern \<Rightarrow> real \<Rightarrow> real \<Rightarrow> real \<Rightarrow> bool \<Rightarrow> error + real list" where
  "guess_candidates env Pr Tr guess smart_guess =
     (let smart_guess_model = ''kareem'' in
      if smart_guess then
        (case check_working_Pr_Tr_range [Pr] [Tr] smart_guess_model of
           Inl e \<Rightarrow> Inl e
         | Inr True \<Rightarrow>
             (case get_z_model env smart_guess_model of
                Inl e \<Rightarrow> Inl e
              | Inr guess_zmodel_func \<Rightarrow>
                  (case guess_zmodel_func None Pr Tr of
                     Inl e \<Rightarrow> Inl e
                   | Inr guess' \<Rightarrow>
                       Inr ([guess'] @ [guess] @ construct_guess_list_order env guess)))
         | Inr False \<Rightarrow> Inr ([guess] @ construct_guess_list_order env guess))
      else Inr (construct_guess_list_order env guess))"

text \<open>
  Lines 121 to 128: one call of \<^verbatim>\<open>optimize.newton\<close>. Popping the absent key
  \<^verbatim>\<open>'maxiter'\<close> leaves \<^verbatim>\<open>newton_kwargs\<close> as it is.
\<close>

definition maxiter :: int where
  "maxiter = 50"

definition newton_attempt ::
  "extern \<Rightarrow> zfunc \<Rightarrow> real \<Rightarrow> real \<Rightarrow> pydict option \<Rightarrow> real \<Rightarrow> error + real" where
  "newton_attempt env zmodel_func Pr Tr newton_kwargs guess' =
     (case newton_kwargs of
        None \<Rightarrow> newton env zmodel_func guess' (Pr, Tr) [''maxiter'' \<mapsto> PyInt maxiter]
      | Some kw \<Rightarrow>
          if ''maxiter'' \<in> dom kw then newton env zmodel_func guess' (Pr, Tr) kw
          else newton env zmodel_func guess' (Pr, Tr) (kw(''maxiter'' \<mapsto> PyInt maxiter)))"

text \<open>
  Lines 119 to 133: the loop over \<^verbatim>\<open>guesses\<close>. The bare \<^verbatim>\<open>except\<close> swallows whatever
  an attempt raises; \<open>None\<close> is \<^verbatim>\<open>worked == False\<close> after the loop.
\<close>

fun try_guesses ::
  "extern \<Rightarrow> zfunc \<Rightarrow> real \<Rightarrow> real \<Rightarrow> pydict option \<Rightarrow> real list \<Rightarrow> real option" where
  "try_guesses env zmodel_func Pr Tr newton_kwargs [] = None"
| "try_guesses env zmodel_func Pr Tr newton_kwargs (guess' # guesses) =
     (case newton_attempt env zmodel_func Pr Tr newton_kwargs guess' of
        Inr Z \<Rightarrow> Some Z
      | Inl e \<Rightarrow> try_guesses env zmodel_func Pr Tr newton_kwargs guesses)"

definition calc_z_explicit_implicit_helper ::
  "extern \<Rightarrow> real \<Rightarrow> real \<Rightarrow> zfunc \<Rightarrow> string \<Rightarrow> real option \<Rightarrow> pydict option \<Rightarrow> bool option
     \<Rightarrow> error + real" where
  "calc_z_explicit_implicit_helper env Pr Tr zmodel_func zmodel_str guess newton_kwargs smart_guess =
     (if zmodel_str \<in> set [''kareem''] then zmodel_func None Pr Tr
      else
        let guess = default_guess guess Pr;
            smart_guess = default_smart_guess smart_guess
        in case guess_candidates env Pr Tr guess smart_guess of
             Inl e \<Rightarrow> Inl e
           | Inr guesses \<Rightarrow>
               (case try_guesses env zmodel_func Pr Tr newton_kwargs guesses of
                  None \<Rightarrow> Inl (RuntimeError ''Failed to converge'')
                | Some Z \<Rightarrow> Inr Z))"

subsection \<open>\<^verbatim>\<open>calc_z\<close>\<close>

text \<open>Lines 260 to 266: the arguments an explicit model refuses.\<close>

definition check_explicit_args :: "calc_z_args \<Rightarrow> error option" where
  \<open>check_explicit_args a =
     (if arg_zmodel a \<in> set [''kareem''] then
        if arg_guess a \<noteq> None then
          Some (KeyError (''calc_z(model="'' @ arg_zmodel a @ ''") got an unexpected argument "guess"''))
        else if arg_newton_kwargs a \<noteq> None then
          Some (KeyError (''calc_z(model="'' @ arg_zmodel a @
            ''") got an unexpected argument "newton_kwargs"''))
        else if arg_smart_guess a \<noteq> None then
          Some (KeyError (''calc_z(model="'' @ arg_zmodel a @
            ''") got an unexpected argument "smart_guess"''))
        else None
      else None)\<close>

definition to_pc_args :: "calc_z_args \<Rightarrow> pc_args" where
  "to_pc_args a = \<lparr>pc_sg = arg_sg a, pc_P = arg_P a, pc_T = arg_T a, pc_Tr = arg_Tr a,
     pc_Pr = arg_Pr a, pc_H2S = arg_H2S a, pc_CO2 = arg_CO2 a, pc_N2 = arg_N2 a,
     pc_ignore_conflict = arg_ignore_conflict a, pc_kwargs = arg_kwargs a\<rparr>"

text \<open>
  Lines 280 to 291: the pseudo-critical dispatch. \<^verbatim>\<open>Sutton\<close> is called without
  \<^verbatim>\<open>N2\<close>, which is \<^verbatim>\<open>None\<close> on that branch.
\<close>

definition resolve_Tr_Pr :: "extern \<Rightarrow> calc_z_args \<Rightarrow> error + real \<times> real \<times> pydict" where
  \<open>resolve_Tr_Pr env a =
     (if arg_pmodel a = ''piper'' then Piper_init env (to_pc_args a)
      else if arg_pmodel a = ''sutton'' then
        if arg_N2 a \<noteq> None then
          Inl (KeyError ''pmodel="sutton" does not support N2 as input. Set N2=None'')
        else Sutton_init env (to_pc_args a)
      else
        Inl (KeyError (''Pseudo-critical model "'' @ arg_pmodel a @
          ''" is not implemented. Choose from the list of available models: '' @ pmodels_ks)))\<close>

definition calc_z :: "extern \<Rightarrow> calc_z_args \<Rightarrow> error + calc_z_result" where
  "calc_z env a =
     (case check_explicit_args a of
        Some e \<Rightarrow> Inl e
      | None \<Rightarrow>
     (case get_z_model env (arg_zmodel a) of
        Inl e \<Rightarrow> Inl e
      | Inr z_model \<Rightarrow>
     (case (arg_Pr a, arg_Tr a) of
        (Some Pr, Some Tr) \<Rightarrow>
          (case calc_z_explicit_implicit_helper env Pr Tr z_model (arg_zmodel a) (arg_guess a)
                  (arg_newton_kwargs a) (arg_smart_guess a) of
             Inl e \<Rightarrow> Inl e
           | Inr Z \<Rightarrow>
               if arg_ps_props a
               then Inr (Props [''z'' \<mapsto> PyFloat Z, ''Pr'' \<mapsto> PyFloat Pr, ''Tr'' \<mapsto> PyFloat Tr])
               else Inr (Z_value Z))
      | _ \<Rightarrow>
          (case resolve_Tr_Pr env a of
             Inl e \<Rightarrow> Inl e
           | Inr (Tr, Pr, pc_ps_props) \<Rightarrow>
               (case calc_z_explicit_implicit_helper env Pr Tr z_model (arg_zmodel a) (arg_guess a)
                       (arg_newton_kwargs a) (arg_smart_guess a) of
                  Inl e \<Rightarrow> Inl e
                | Inr Z \<Rightarrow>
                    if arg_ps_props a
                    then Inr (Props (([''z'' \<mapsto> PyFloat Z] ++ pc_ps_props)
                                       (''Tr'' \<mapsto> PyFloat Tr, ''Pr'' \<mapsto> PyFloat Pr)))
                    else Inr (Z_value Z))))))"

subsection \<open>The property bag of a pseudo-critical model\<close>

text \<open>
  Modelled from the spec: the classes \<^verbatim>\<open>Piper\<close> and \<^verbatim>\<open>Sutton\<close> are imported, their
  source is not part of the module. Their property bag \<^verbatim>\<open>ps_props\<close> is described as
  holding \<^verbatim>\<open>Tpc\<close>, \<^verbatim>\<open>Ppc\<close>, \<^verbatim>\<open>Tr\<close>, \<^verbatim>\<open>Pr\<close> and model-specific extras such as
  \<^verbatim>\<open>J\<close>, \<^verbatim>\<open>K\<close> and \<^verbatim>\<open>e_correction\<close>: it has no entry named \<^verbatim>\<open>z\<close>.
\<close>

definition pc_props_ok :: "extern \<Rightarrow> bool" where
  "pc_props_ok env \<longleftrightarrow>
     (\<forall>args Tr Pr props.
        Piper_init env args = Inr (Tr, Pr, props) \<or> Sutton_init env args = Inr (Tr, Pr, props)
        \<longrightarrow> props ''z'' = None)"

subsection \<open>A sample environment\<close>

text \<open>
  Stand-ins for the imported functions, used to run the definitions on concrete calls:
  a residual with its root at \<open>0.8\<close> and one with its root at \<open>2\<close>, an explicit model
  that answers \<open>0.85\<close>, a root-finder that succeeds exactly when started on a root, a set that iterates in the
  order of the list it was built from (\<open>remdups\<close>), and a pseudo-critical model with a
  fixed answer.
\<close>

definition sample_residual :: zfunc where
  "sample_residual Z Pr Tr =
     (case Z of None \<Rightarrow> Inl (Raised ''TypeError'') | Some z \<Rightarrow> Inr (z - 8 / 10))"

definition sample_residual_high :: zfunc where
  "sample_residual_high Z Pr Tr =
     (case Z of None \<Rightarrow> Inl (Raised ''TypeError'') | Some z \<Rightarrow> Inr (z - 2))"

definition sample_explicit :: zfunc where
  "sample_explicit Z Pr Tr = Inr (85 / 100)"

definition sample_newton :: "zfunc \<Rightarrow> real \<Rightarrow> real \<times> real \<Rightarrow> pydict \<Rightarrow> error + real" where
  "sample_newton f x0 args kw =
     (case f (Some x0) (fst args) (snd args) of
        Inl e \<Rightarrow> Inl e
      | Inr r \<Rightarrow> if r = 0 then Inr x0 else Inl (RuntimeError ''Failed to converge after iterations''))"

definition sample_pc :: "pc_args \<Rightarrow> error + real \<times> real \<times> pydict" where
  "sample_pc args = Inr (3 / 2, 5 / 2, [''Tpc'' \<mapsto> PyFloat 370, ''Ppc'' \<mapsto> PyFloat 660])"

definition sample_env :: extern where
  "sample_env = \<lparr>DAK = sample_residual, hall_yarborough = sample_residual,
     londono = sample_residual, kareem = sample_explicit, newton = sample_newton,
     list_set = remdups, Piper_init = sample_pc, Sutton_init = sample_pc\<rparr>"

section \<open>Properties\<close>

subsection \<open>Auxiliary facts\<close>

lemma models_None_iff:
  "models env name = None \<longleftrightarrow> name \<notin> {''DAK'', ''hall_yarborough'', ''londono'', ''kareem''}"
  by (simp add: models_def)

lemma check_explicit_args_kareem:
  assumes "arg_zmodel a = ''kareem''"
    and "arg_guess a \<noteq> None \<or> arg_newton_kwargs a \<noteq> None \<or> arg_smart_guess a \<noteq> None"
  shows \<open>check_explicit_args a =
     Some (KeyError (''calc_z(model="kareem") got an unexpected argument "'' @
       (if arg_guess a \<noteq> None then ''guess''
        else if arg_newton_kwargs a \<noteq> None then ''newton_kwargs'' else ''smart_guess'') @ ''"''))\<close>
  using assms by (auto simp: check_explicit_args_def)

subsection \<open>Explicit model and solver arguments\<close>

text \<open>
  C1. With \<^verbatim>\<open>zmodel='kareem'\<close>, a call that supplies \<^verbatim>\<open>guess\<close>, \<^verbatim>\<open>newton_kwargs\<close> or
  \<^verbatim>\<open>smart_guess\<close> raises the \<^verbatim>\<open>KeyError\<close> naming the first of them that is set. The
  result does not depend on the environment, so no lookup, pseudo-critical reduction or
  correlation has been evaluated when the call fails.
\<close>

theorem calc_z_explicit_rejects_solver_args:
  assumes "arg_zmodel a = ''kareem''"
    and "arg_guess a \<noteq> None \<or> arg_newton_kwargs a \<noteq> None \<or> arg_smart_guess a \<noteq> None"
  shows \<open>calc_z env a =
     Inl (KeyError (''calc_z(model="kareem") got an unexpected argument "'' @
       (if arg_guess a \<noteq> None then ''guess''
        else if arg_newton_kwargs a \<noteq> None then ''newton_kwargs'' else ''smart_guess'') @ ''"''))\<close>
  unfolding calc_z_def check_explicit_args_kareem [OF assms] by simp

theorem calc_z_explicit_rejects_solver_args_witness:
  \<open>calc_z sample_env (calc_z_defaults\<lparr>arg_zmodel := ''kareem'', arg_guess := Some (1 / 2)\<rparr>)
     = Inl (KeyError ''calc_z(model="kareem") got an unexpected argument "guess"'')\<close>
  using calc_z_explicit_rejects_solver_args
    [of "calc_z_defaults\<lparr>arg_zmodel := ''kareem'', arg_guess := Some (1 / 2)\<rparr>" sample_env]
  by (simp add: calc_z_defaults_def)

subsection \<open>Working ranges\<close>

text \<open>
  C4. For each of the four model names the range check answers whether every element of
  \<open>Pr\<close> and every element of \<open>Tr\<close> lies between the bounds of the model, bounds
  included. For \<^verbatim>\<open>DAK\<close> the bounds on \<open>Pr\<close> are \<open>0.2\<close> and \<open>30\<close>, so
  \<open>(1.5, 1.5)\<close> is in range and \<open>(35, 1.5)\<close> is not.
\<close>

theorem check_working_Pr_Tr_range_iff:
  assumes "name \<in> {''DAK'', ''hall_yarborough'', ''londono'', ''kareem''}"
  shows "(\<exists>r. MODEL_RANGES name = Some r \<and>
           check_working_Pr_Tr_range Pr Tr name =
             Inr ((\<forall>p \<in> set Pr. fst (Pr_range r) \<le> p \<and> p \<le> snd (Pr_range r)) \<and>
                  (\<forall>t \<in> set Tr. fst (Tr_range r) \<le> t \<and> t \<le> snd (Tr_range r)))) \<and>
         MODEL_RANGES ''DAK'' = Some \<lparr>Tr_range = (1, 3), Pr_range = (2 / 10, 30)\<rparr> \<and>
         check_working_Pr_Tr_range [15 / 10] [15 / 10] ''DAK'' = Inr True \<and>
         check_working_Pr_Tr_range [35] [15 / 10] ''DAK'' = Inr False"
proof -
  from assms obtain r where r: "MODEL_RANGES name = Some r"
    by (auto simp: MODEL_RANGES_def)
  then have a: "\<exists>r. MODEL_RANGES name = Some r \<and>
           check_working_Pr_Tr_range Pr Tr name =
             Inr ((\<forall>p \<in> set Pr. fst (Pr_range r) \<le> p \<and> p \<le> snd (Pr_range r)) \<and>
                  (\<forall>t \<in> set Tr. fst (Tr_range r) \<le> t \<and> t \<le> snd (Tr_range r)))"
    by (simp add: check_working_Pr_Tr_range_def list_all_iff)
  have b: "MODEL_RANGES ''DAK'' = Some \<lparr>Tr_range = (1, 3), Pr_range = (2 / 10, 30)\<rparr>"
    by (simp add: MODEL_RANGES_def)
  then have c: "check_working_Pr_Tr_range [15 / 10] [15 / 10] ''DAK'' = Inr True"
    and d: "check_working_Pr_Tr_range [35] [15 / 10] ''DAK'' = Inr False"
    by (simp_all add: check_working_Pr_Tr_range_def)
  from a b c d show ?thesis by blast
qed

theorem check_working_Pr_Tr_range_iff_witness:
  "''hall_yarborough'' \<in> {''DAK'', ''hall_yarborough'', ''londono'', ''kareem''} \<and>
   check_working_Pr_Tr_range [2 / 10, 205 / 10] [1, 3] ''hall_yarborough'' = Inr True \<and>
   check_working_Pr_Tr_range [2 / 10, 21, 5] [1, 3] ''hall_yarborough'' = Inr False"
  using check_working_Pr_Tr_range_iff [of "''hall_yarborough''" "[2 / 10, 21, 5]" "[1, 3]"]
  by (simp add: MODEL_RANGES_def check_working_Pr_Tr_range_def)

subsection \<open>The solve loop\<close>

lemma try_guesses_None_iff:
  "try_guesses env f Pr Tr kw gs = None \<longleftrightarrow>
     (\<forall>g \<in> set gs. \<exists>e. newton_attempt env f Pr Tr kw g = Inl e)"
  by (induction gs) (auto split: sum.splits)

lemma try_guesses_Some_iff:
  "try_guesses env f Pr Tr kw gs = Some Z \<longleftrightarrow>
     (\<exists>xs g ys. gs = xs @ g # ys \<and>
        (\<forall>x \<in> set xs. \<exists>e. newton_attempt env f Pr Tr kw x = Inl e) \<and>
        newton_attempt env f Pr Tr kw g = Inr Z)"
proof (induction gs)
  case Nil
  then show ?case by simp
next
  case (Cons a gs)
  show ?case
  proof (cases "newton_attempt env f Pr Tr kw a")
    case (Inr Z')
    have "(\<exists>xs g ys. a # gs = xs @ g # ys \<and>
        (\<forall>x \<in> set xs. \<exists>e. newton_attempt env f Pr Tr kw x = Inl e) \<and>
        newton_attempt env f Pr Tr kw g = Inr Z) \<longleftrightarrow> Z' = Z"
    proof
      assume "\<exists>xs g ys. a # gs = xs @ g # ys \<and>
        (\<forall>x \<in> set xs. \<exists>e. newton_attempt env f Pr Tr kw x = Inl e) \<and>
        newton_attempt env f Pr Tr kw g = Inr Z"
      then obtain xs g ys where s: "a # gs = xs @ g # ys"
        and fl: "\<forall>x \<in> set xs. \<exists>e. newton_attempt env f Pr Tr kw x = Inl e"
        and ok: "newton_attempt env f Pr Tr kw g = Inr Z" by blast
      show "Z' = Z"
      proof (cases xs)
        case Nil
        with s ok Inr show ?thesis by simp
      next
        case (Cons b bs)
        with s fl Inr show ?thesis by auto
      qed
    next
      assume "Z' = Z"
      with Inr have "a # gs = [] @ a # gs \<and>
        (\<forall>x \<in> set []. \<exists>e. newton_attempt env f Pr Tr kw x = Inl e) \<and>
        newton_attempt env f Pr Tr kw a = Inr Z" by simp
      then show "\<exists>xs g ys. a # gs = xs @ g # ys \<and>
        (\<forall>x \<in> set xs. \<exists>e. newton_attempt env f Pr Tr kw x = Inl e) \<and>
        newton_attempt env f Pr Tr kw g = Inr Z" by blast
    qed
    with Inr show ?thesis by simp
  next
    case (Inl e)
    have "(\<exists>xs g ys. a # gs = xs @ g # ys \<and>
        (\<forall>x \<in> set xs. \<exists>e. newton_attempt env f Pr Tr kw x = Inl e) \<and>
        newton_attempt env f Pr Tr kw g = Inr Z) \<longleftrightarrow>
      (\<exists>xs g ys. gs = xs @ g # ys \<and>
        (\<forall>x \<in> set xs. \<exists>e. newton_attempt env f Pr Tr kw x = Inl e) \<and>
        newton_attempt env f Pr Tr kw g = Inr Z)" (is "?L \<longleftrightarrow> ?R")
    proof
      assume ?L
      then obtain xs g ys where s: "a # gs = xs @ g # ys"
        and fl: "\<forall>x \<in> set xs. \<exists>e. newton_attempt env f Pr Tr kw x = Inl e"
        and ok: "newton_attempt env f Pr Tr kw g = Inr Z" by blast
      show ?R
      proof (cases xs)
        case Nil
        with s ok Inl show ?thesis by simp
      next
        case (Cons b bs)
        with s fl have "gs = bs @ g # ys"
          and "\<forall>x \<in> set bs. \<exists>e. newton_attempt env f Pr Tr kw x = Inl e" by auto
        with ok show ?thesis by blast
      qed
    next
      assume ?R
      then obtain xs g ys where s: "gs = xs @ g # ys"
        and fl: "\<forall>x \<in> set xs. \<exists>e. newton_attempt env f Pr Tr kw x = Inl e"
        and ok: "newton_attempt env f Pr Tr kw g = Inr Z" by blast
      from s fl Inl have "a # gs = (a # xs) @ g # ys"
        and "\<forall>x \<in> set (a # xs). \<exists>e. newton_attempt env f Pr Tr kw x = Inl e" by auto
      with ok show ?L by blast
    qed
    with Inl Cons.IH show ?thesis by simp
  qed
qed

lemma helper_implicit:
  assumes "zmodel_str \<noteq> ''kareem''"
    and "guess_candidates env Pr Tr (default_guess guess Pr) (default_smart_guess sg) = Inr gs"
  shows "calc_z_explicit_implicit_helper env Pr Tr f zmodel_str guess kw sg =
     (case try_guesses env f Pr Tr kw gs of
        None \<Rightarrow> Inl (RuntimeError ''Failed to converge'') | Some Z \<Rightarrow> Inr Z)"
  using assms by (simp add: calc_z_explicit_implicit_helper_def)

text \<open>
  C5. For an implicit model whose guess list is \<open>gs\<close>: the helper raises
  \<^verbatim>\<open>RuntimeError("Failed to converge")\<close> exactly when the attempt from every element of
  \<open>gs\<close> raises; it returns \<open>Z\<close> exactly when \<open>Z\<close> is what the attempt from the first
  element whose attempt does not raise returns, whatever comes after that element. An
  attempt is one call of the root-finder with \<^verbatim>\<open>maxiter=50\<close>, unless
  \<^verbatim>\<open>newton_kwargs\<close> carries its own \<^verbatim>\<open>maxiter\<close>.
\<close>

theorem implicit_solve_tries_candidates_in_order:
  assumes "zmodel_str \<noteq> ''kareem''"
    and "guess_candidates env Pr Tr (default_guess guess Pr) (default_smart_guess sg) = Inr gs"
  shows "(calc_z_explicit_implicit_helper env Pr Tr f zmodel_str guess kw sg
            = Inl (RuntimeError ''Failed to converge'')
          \<longleftrightarrow> (\<forall>g \<in> set gs. \<exists>e. newton_attempt env f Pr Tr kw g = Inl e)) \<and>
         (calc_z_explicit_implicit_helper env Pr Tr f zmodel_str guess kw sg = Inr Z
          \<longleftrightarrow> (\<exists>xs g ys. gs = xs @ g # ys \<and>
                 (\<forall>x \<in> set xs. \<exists>e. newton_attempt env f Pr Tr kw x = Inl e) \<and>
                 newton_attempt env f Pr Tr kw g = Inr Z)) \<and>
         newton_attempt env f Pr Tr None g0 = newton env f g0 (Pr, Tr) [''maxiter'' \<mapsto> PyInt 50] \<and>
         (''maxiter'' \<in> dom opts \<longrightarrow>
            newton_attempt env f Pr Tr (Some opts) g0 = newton env f g0 (Pr, Tr) opts) \<and>
         (''maxiter'' \<notin> dom opts \<longrightarrow>
            newton_attempt env f Pr Tr (Some opts) g0
              = newton env f g0 (Pr, Tr) (opts(''maxiter'' \<mapsto> PyInt 50)))"
proof -
  have h: "calc_z_explicit_implicit_helper env Pr Tr f zmodel_str guess kw sg =
     (case try_guesses env f Pr Tr kw gs of
        None \<Rightarrow> Inl (RuntimeError ''Failed to converge'') | Some Z \<Rightarrow> Inr Z)"
    using assms by (rule helper_implicit)
  have a: "calc_z_explicit_implicit_helper env Pr Tr f zmodel_str guess kw sg
            = Inl (RuntimeError ''Failed to converge'')
          \<longleftrightarrow> (\<forall>g \<in> set gs. \<exists>e. newton_attempt env f Pr Tr kw g = Inl e)"
    unfolding h try_guesses_None_iff [symmetric] by (simp split: option.splits)
  have b: "calc_z_explicit_implicit_helper env Pr Tr f zmodel_str guess kw sg = Inr Z
          \<longleftrightarrow> (\<exists>xs g ys. gs = xs @ g # ys \<and>
                 (\<forall>x \<in> set xs. \<exists>e. newton_attempt env f Pr Tr kw x = Inl e) \<and>
                 newton_attempt env f Pr Tr kw g = Inr Z)"
    unfolding h try_guesses_Some_iff [symmetric] by (simp split: option.splits)
  have c: "newton_attempt env f Pr Tr None g0 = newton env f g0 (Pr, Tr) [''maxiter'' \<mapsto> PyInt 50]"
    by (simp add: newton_attempt_def maxiter_def)
  have d: "''maxiter'' \<in> dom opts \<longrightarrow>
            newton_attempt env f Pr Tr (Some opts) g0 = newton env f g0 (Pr, Tr) opts"
    by (simp add: newton_attempt_def)
  have e: "''maxiter'' \<notin> dom opts \<longrightarrow>
            newton_attempt env f Pr Tr (Some opts) g0
              = newton env f g0 (Pr, Tr) (opts(''maxiter'' \<mapsto> PyInt 50))"
    by (simp add: newton_attempt_def maxiter_def)
  from a b c d e show ?thesis by blast
qed

lemma sample_guesses:
  "guess_candidates sample_env (3 / 2) (3 / 2) (default_guess None (3 / 2)) (default_smart_guess None)
     = Inr [85 / 100, 9 / 10, 9 / 10, 8 / 10, 1, 7 / 10, 6 / 10, 5 / 10, 4 / 10, 3 / 10, 2 / 10, 1 / 10]"
  by (simp add: guess_candidates_def default_guess_def default_smart_guess_def
      check_working_Pr_Tr_range_def MODEL_RANGES_def get_z_model_def models_def sample_env_def
      sample_explicit_def construct_guess_list_order_def ladder_def Let_def)

lemma sample_attempt:
  "newton_attempt sample_env sample_residual Pr Tr None g =
     (if g = 8 / 10 then Inr g else Inl (RuntimeError ''Failed to converge after iterations''))"
  by (simp add: newton_attempt_def sample_env_def sample_newton_def sample_residual_def)

lemma sample_solve:
  "calc_z_explicit_implicit_helper sample_env (3 / 2) (3 / 2) sample_residual ''DAK'' None None None
     = Inr (8 / 10)"
  by (simp add: calc_z_explicit_implicit_helper_def sample_guesses sample_attempt)

theorem implicit_solve_tries_candidates_in_order_witness:
  "''DAK'' \<noteq> ''kareem'' \<and>
   guess_candidates sample_env (3 / 2) (3 / 2) (default_guess None (3 / 2)) (default_smart_guess None)
     = Inr [85 / 100, 9 / 10, 9 / 10, 8 / 10, 1, 7 / 10, 6 / 10, 5 / 10, 4 / 10, 3 / 10, 2 / 10, 1 / 10] \<and>
   calc_z_explicit_implicit_helper sample_env (3 / 2) (3 / 2) sample_residual ''DAK'' None None None
     = Inr (8 / 10) \<and>
   (\<exists>xs g ys. [85 / 100, 9 / 10, 9 / 10, 8 / 10, 1, 7 / 10, 6 / 10, 5 / 10, 4 / 10, 3 / 10, 2 / 10, 1 / 10]
        = xs @ g # ys \<and>
      (\<forall>x \<in> set xs. \<exists>e. newton_attempt sample_env sample_residual (3 / 2) (3 / 2) None x = Inl e) \<and>
      newton_attempt sample_env sample_residual (3 / 2) (3 / 2) None g = Inr (8 / 10))"
proof -
  have n: "''DAK'' \<noteq> ''kareem''" by simp
  have h: "calc_z_explicit_implicit_helper sample_env (3 / 2) (3 / 2) sample_residual ''DAK'' None None None
     = Inr (8 / 10)"
    by (rule sample_solve)
  from implicit_solve_tries_candidates_in_order [OF n sample_guesses,
      of sample_residual None "8 / 10"] h
  have "\<exists>xs g ys. [85 / 100, 9 / 10, 9 / 10, 8 / 10, 1, 7 / 10, 6 / 10, 5 / 10, 4 / 10, 3 / 10, 2 / 10, 1 / 10]
        = xs @ g # ys \<and>
      (\<forall>x \<in> set xs. \<exists>e. newton_attempt sample_env sample_residual (3 / 2) (3 / 2) None x = Inl e) \<and>
      newton_attempt sample_env sample_residual (3 / 2) (3 / 2) None g = Inr (8 / 10)"
    by blast
  with n sample_guesses h show ?thesis by blast
qed


subsection \<open>Model lookup\<close>

text \<open>
  C7. Looking up each of the four names gives its correlation function; any other name
  raises the \<^verbatim>\<open>KeyError\<close> whose message ends with the list of the four names. Under the
  name \<^verbatim>\<open>kareem\<close> the helper returns what the function answers for \<open>(Pr, Tr)\<close>,
  without the root-finder; under the other three names it runs the loop over the guess
  list.
\<close>

theorem get_z_model_lookup:
  \<open>get_z_model env ''DAK'' = Inr (DAK env) \<and>
   get_z_model env ''hall_yarborough'' = Inr (hall_yarborough env) \<and>
   get_z_model env ''londono'' = Inr (londono env) \<and>
   get_z_model env ''kareem'' = Inr (kareem env) \<and>
   (name \<notin> {''DAK'', ''hall_yarborough'', ''londono'', ''kareem''} \<longrightarrow>
      get_z_model env name = Inl (KeyError (''Z-factor model "'' @ name @
        ''" is not implemented. Choose from the list of available models: '' @
        ''["DAK", "hall_yarborough", "londono", "kareem"]''))) \<and>
   calc_z_explicit_implicit_helper env Pr Tr f ''kareem'' guess kw sg = f None Pr Tr \<and>
   (name \<in> {''DAK'', ''hall_yarborough'', ''londono''} \<longrightarrow>
      calc_z_explicit_implicit_helper env Pr Tr f name guess kw sg =
        (case guess_candidates env Pr Tr (default_guess guess Pr) (default_smart_guess sg) of
           Inl e \<Rightarrow> Inl e
         | Inr guesses \<Rightarrow>
             (case try_guesses env f Pr Tr kw guesses of
                None \<Rightarrow> Inl (RuntimeError ''Failed to converge'')
              | Some Z \<Rightarrow> Inr Z)))\<close>
proof -
  have a: "get_z_model env ''DAK'' = Inr (DAK env)"
    "get_z_model env ''hall_yarborough'' = Inr (hall_yarborough env)"
    "get_z_model env ''londono'' = Inr (londono env)"
    "get_z_model env ''kareem'' = Inr (kareem env)"
    by (simp_all add: get_z_model_def models_def)
  have b: \<open>name \<notin> {''DAK'', ''hall_yarborough'', ''londono'', ''kareem''} \<longrightarrow>
      get_z_model env name = Inl (KeyError (''Z-factor model "'' @ name @
        ''" is not implemented. Choose from the list of available models: '' @
        ''["DAK", "hall_yarborough", "londono", "kareem"]''))\<close>
  proof
    assume "name \<notin> {''DAK'', ''hall_yarborough'', ''londono'', ''kareem''}"
    then have "models env name = None" using models_None_iff [of env name] by blast
    then show \<open>get_z_model env name = Inl (KeyError (''Z-factor model "'' @ name @
        ''" is not implemented. Choose from the list of available models: '' @
        ''["DAK", "hall_yarborough", "londono", "kareem"]''))\<close>
      by (simp add: get_z_model_def zmodels_ks_def)
  qed
  have c: "calc_z_explicit_implicit_helper env Pr Tr f ''kareem'' guess kw sg = f None Pr Tr"
    by (simp add: calc_z_explicit_implicit_helper_def)
  have d: "name \<in> {''DAK'', ''hall_yarborough'', ''londono''} \<longrightarrow>
      calc_z_explicit_implicit_helper env Pr Tr f name guess kw sg =
        (case guess_candidates env Pr Tr (default_guess guess Pr) (default_smart_guess sg) of
           Inl e \<Rightarrow> Inl e
         | Inr guesses \<Rightarrow>
             (case try_guesses env f Pr Tr kw guesses of
                None \<Rightarrow> Inl (RuntimeError ''Failed to converge'')
              | Some Z \<Rightarrow> Inr Z))"
    by (auto simp add: calc_z_explicit_implicit_helper_def)
  from a b c d show ?thesis by blast
qed


theorem get_z_model_lookup_witness:
  \<open>get_z_model sample_env ''nonexistent'' =
     Inl (KeyError (''Z-factor model "nonexistent" is not implemented. '' @
       ''Choose from the list of available models: ["DAK", "hall_yarborough", "londono", "kareem"]'')) \<and>
   calc_z_explicit_implicit_helper sample_env (3 / 2) (3 / 2) (kareem sample_env) ''kareem'' None None None
     = Inr (85 / 100) \<and>
   calc_z_explicit_implicit_helper sample_env (3 / 2) (3 / 2) (DAK sample_env) ''DAK'' None None None
     = Inr (8 / 10)\<close>
proof -
  have a: \<open>get_z_model sample_env ''nonexistent'' =
     Inl (KeyError (''Z-factor model "nonexistent" is not implemented. '' @
       ''Choose from the list of available models: ["DAK", "hall_yarborough", "londono", "kareem"]''))\<close>
    using get_z_model_lookup [of sample_env "''nonexistent''"] by simp
  have k: "kareem sample_env = sample_explicit" and d: "DAK sample_env = sample_residual"
    by (simp_all add: sample_env_def)
  have b: "calc_z_explicit_implicit_helper sample_env (3 / 2) (3 / 2) (kareem sample_env) ''kareem'' None None None
     = Inr (85 / 100)"
    using get_z_model_lookup [of sample_env "''x''" "3 / 2" "3 / 2" "kareem sample_env" None None None]
    by (simp add: k sample_explicit_def)
  have c: "calc_z_explicit_implicit_helper sample_env (3 / 2) (3 / 2) (DAK sample_env) ''DAK'' None None None
     = Inr (8 / 10)"
    using get_z_model_lookup [of sample_env "''DAK''" "3 / 2" "3 / 2" "DAK sample_env" None None None]
    by (simp add: d sample_guesses sample_attempt)
  from a b c show ?thesis by blast
qed

subsection \<open>Pseudo-critical dispatch\<close>

lemma calc_z_unresolved:
  assumes "check_explicit_args a = None" and "get_z_model env (arg_zmodel a) = Inr z_model"
    and "arg_Pr a = None \<or> arg_Tr a = None"
  shows "calc_z env a =
     (case resolve_Tr_Pr env a of
        Inl e \<Rightarrow> Inl e
      | Inr (Tr, Pr, pc_ps_props) \<Rightarrow>
          (case calc_z_explicit_implicit_helper env Pr Tr z_model (arg_zmodel a) (arg_guess a)
                  (arg_newton_kwargs a) (arg_smart_guess a) of
             Inl e \<Rightarrow> Inl e
           | Inr Z \<Rightarrow>
               if arg_ps_props a
               then Inr (Props (([''z'' \<mapsto> PyFloat Z] ++ pc_ps_props)
                                  (''Tr'' \<mapsto> PyFloat Tr, ''Pr'' \<mapsto> PyFloat Pr)))
               else Inr (Z_value Z)))"
  using assms by (auto simp: calc_z_def split: option.splits)

lemma calc_z_resolved:
  assumes "check_explicit_args a = None" and "get_z_model env (arg_zmodel a) = Inr z_model"
    and "arg_Pr a = Some Pr" and "arg_Tr a = Some Tr"
  shows "calc_z env a =
     (case calc_z_explicit_implicit_helper env Pr Tr z_model (arg_zmodel a) (arg_guess a)
             (arg_newton_kwargs a) (arg_smart_guess a) of
        Inl e \<Rightarrow> Inl e
      | Inr Z \<Rightarrow>
          if arg_ps_props a
          then Inr (Props [''z'' \<mapsto> PyFloat Z, ''Pr'' \<mapsto> PyFloat Pr, ''Tr'' \<mapsto> PyFloat Tr])
          else Inr (Z_value Z))"
  using assms by (simp add: calc_z_def)

text \<open>
  C8, as amended. When \<open>Pr\<close> and \<open>Tr\<close> are not both supplied, the z-model is one of
  the four names and the check of the explicit model's arguments passes: a \<^verbatim>\<open>pmodel\<close>
  other than \<^verbatim>\<open>piper\<close> and \<^verbatim>\<open>sutton\<close> raises the \<^verbatim>\<open>KeyError\<close> that lists the
  pseudo-critical models, and \<^verbatim>\<open>sutton\<close> with \<^verbatim>\<open>N2\<close> set raises the \<^verbatim>\<open>KeyError\<close>
  that refuses \<^verbatim>\<open>N2\<close>.
\<close>

theorem calc_z_pseudo_critical_dispatch_errors:
  assumes "check_explicit_args a = None"
    and "arg_zmodel a \<in> {''DAK'', ''hall_yarborough'', ''londono'', ''kareem''}"
    and "arg_Pr a = None \<or> arg_Tr a = None"
  shows \<open>(arg_pmodel a \<noteq> ''piper'' \<and> arg_pmodel a \<noteq> ''sutton'' \<longrightarrow>
            calc_z env a = Inl (KeyError (''Pseudo-critical model "'' @ arg_pmodel a @
              ''" is not implemented. Choose from the list of available models: '' @
              ''["sutton", "piper"]''))) \<and>
         (arg_pmodel a = ''sutton'' \<and> arg_N2 a \<noteq> None \<longrightarrow>
            calc_z env a =
              Inl (KeyError ''pmodel="sutton" does not support N2 as input. Set N2=None''))\<close>
proof -
  from assms(2) obtain z_model where z: "get_z_model env (arg_zmodel a) = Inr z_model"
    using models_None_iff [of env "arg_zmodel a"]
    by (cases "models env (arg_zmodel a)") (auto simp: get_z_model_def)
  show ?thesis
    unfolding calc_z_unresolved [OF assms(1) z assms(3)]
    by (simp add: resolve_Tr_Pr_def pmodels_ks_def)
qed

theorem calc_z_pseudo_critical_dispatch_errors_witness:
  \<open>calc_z sample_env (calc_z_defaults\<lparr>arg_sg := Some (7 / 10), arg_N2 := Some (5 / 100),
       arg_pmodel := ''sutton''\<rparr>)
     = Inl (KeyError ''pmodel="sutton" does not support N2 as input. Set N2=None'') \<and>
   calc_z sample_env (calc_z_defaults\<lparr>arg_sg := Some (7 / 10), arg_Tr := Some (3 / 2),
       arg_pmodel := ''standing''\<rparr>)
     = Inl (KeyError (''Pseudo-critical model "standing" is not implemented. '' @
         ''Choose from the list of available models: ["sutton", "piper"]''))\<close>
  using calc_z_pseudo_critical_dispatch_errors
    [of "calc_z_defaults\<lparr>arg_sg := Some (7 / 10), arg_N2 := Some (5 / 100),
       arg_pmodel := ''sutton''\<rparr>" sample_env]
    calc_z_pseudo_critical_dispatch_errors
    [of "calc_z_defaults\<lparr>arg_sg := Some (7 / 10), arg_Tr := Some (3 / 2),
       arg_pmodel := ''standing''\<rparr>" sample_env]
  by (simp add: calc_z_defaults_def check_explicit_args_def)

text \<open>
  Without the condition on the z-model the claim fails: an unknown \<^verbatim>\<open>zmodel\<close> is
  reported first, by the lookup of line 268, and the dispatch is never reached.
\<close>

theorem calc_z_pseudo_critical_error_counterexample:
  \<open>arg_Pr (calc_z_defaults\<lparr>arg_zmodel := ''nonexistent'', arg_pmodel := ''sutton'',
            arg_N2 := Some (5 / 100)\<rparr>) = None \<and>
   calc_z sample_env (calc_z_defaults\<lparr>arg_zmodel := ''nonexistent'', arg_pmodel := ''sutton'',
            arg_N2 := Some (5 / 100)\<rparr>)
     = Inl (KeyError (''Z-factor model "nonexistent" is not implemented. '' @
         ''Choose from the list of available models: ["DAK", "hall_yarborough", "londono", "kareem"]'')) \<and>
   calc_z sample_env (calc_z_defaults\<lparr>arg_zmodel := ''nonexistent'', arg_pmodel := ''sutton'',
            arg_N2 := Some (5 / 100)\<rparr>)
     \<noteq> Inl (KeyError ''pmodel="sutton" does not support N2 as input. Set N2=None'')\<close>
  by (simp add: calc_z_def calc_z_defaults_def check_explicit_args_def get_z_model_def
      models_def zmodels_ks_def)

subsection \<open>Reporting the pseudo-critical properties\<close>

lemma check_explicit_args_ps_props:
  "check_explicit_args (a\<lparr>arg_ps_props := b\<rparr>) = check_explicit_args a"
  by (simp add: check_explicit_args_def)

lemma resolve_Tr_Pr_ps_props:
  "resolve_Tr_Pr env (a\<lparr>arg_ps_props := b\<rparr>) = resolve_Tr_Pr env a"
  by (simp add: resolve_Tr_Pr_def to_pc_args_def)

lemma resolve_Tr_Pr_no_z:
  assumes "pc_props_ok env" and "resolve_Tr_Pr env a = Inr (Tr, Pr, props)"
  shows "props ''z'' = None"
proof -
  from assms(2) have "Piper_init env (to_pc_args a) = Inr (Tr, Pr, props) \<or>
      Sutton_init env (to_pc_args a) = Inr (Tr, Pr, props)"
    by (auto simp: resolve_Tr_Pr_def split: if_splits)
  with assms(1) show ?thesis unfolding pc_props_ok_def by blast
qed

text \<open>
  C9. Take a call and set \<^verbatim>\<open>ps_props\<close> to \<^verbatim>\<open>False\<close> and to \<^verbatim>\<open>True\<close>. The two calls
  raise the same exceptions. With \<^verbatim>\<open>False\<close> the result is a bare \<open>Z\<close>, never a
  dictionary. When it is \<open>Z\<close>, the call with \<^verbatim>\<open>True\<close> returns a dictionary whose entry
  \<^verbatim>\<open>z\<close> is that \<open>Z\<close> and whose entries \<^verbatim>\<open>Pr\<close> and \<^verbatim>\<open>Tr\<close> are the reduced state
  (the supplied one, or the one the pseudo-critical model returned) from which the helper
  computed \<open>Z\<close>. The property bag of the pseudo-critical model is assumed to have no
  entry \<^verbatim>\<open>z\<close> of its own.
\<close>

theorem calc_z_ps_props_bundle:
  assumes "pc_props_ok env"
  shows "(calc_z env (a\<lparr>arg_ps_props := False\<rparr>) = Inl e \<longleftrightarrow>
            calc_z env (a\<lparr>arg_ps_props := True\<rparr>) = Inl e) \<and>
         calc_z env (a\<lparr>arg_ps_props := False\<rparr>) \<noteq> Inr (Props d0) \<and>
         (calc_z env (a\<lparr>arg_ps_props := False\<rparr>) = Inr (Z_value Z) \<longrightarrow>
            (\<exists>d z_model Pr Tr.
               calc_z env (a\<lparr>arg_ps_props := True\<rparr>) = Inr (Props d) \<and>
               d ''z'' = Some (PyFloat Z) \<and> d ''Pr'' = Some (PyFloat Pr) \<and>
               d ''Tr'' = Some (PyFloat Tr) \<and>
               get_z_model env (arg_zmodel a) = Inr z_model \<and>
               (arg_Pr a = Some Pr \<and> arg_Tr a = Some Tr \<or>
                (arg_Pr a = None \<or> arg_Tr a = None) \<and>
                (\<exists>props. resolve_Tr_Pr env a = Inr (Tr, Pr, props))) \<and>
               calc_z_explicit_implicit_helper env Pr Tr z_model (arg_zmodel a) (arg_guess a)
                 (arg_newton_kwargs a) (arg_smart_guess a) = Inr Z))"
    (is "?A \<and> ?B \<and> ?C")
proof (cases "check_explicit_args a")
  case (Some e')
  then show ?thesis by (simp add: calc_z_def check_explicit_args_ps_props)
next
  case None
  note chk = this
  show ?thesis
  proof (cases "get_z_model env (arg_zmodel a)")
    case (Inl e')
    with chk show ?thesis by (simp add: calc_z_def check_explicit_args_ps_props)
  next
    case (Inr z_model)
    note zm = this
    have chk': "check_explicit_args (a\<lparr>arg_ps_props := b\<rparr>) = None" for b
      using chk by (simp add: check_explicit_args_ps_props)
    have zm': "get_z_model env (arg_zmodel (a\<lparr>arg_ps_props := b\<rparr>)) = Inr z_model" for b
      using zm by simp
    show ?thesis
    proof (cases "arg_Pr a = None \<or> arg_Tr a = None")
      case False
      then obtain Pr Tr where pt: "arg_Pr a = Some Pr" "arg_Tr a = Some Tr" by auto
      have pt': "arg_Pr (a\<lparr>arg_ps_props := b\<rparr>) = Some Pr"
        "arg_Tr (a\<lparr>arg_ps_props := b\<rparr>) = Some Tr" for b
        using pt by simp_all
      have r: "calc_z env (a\<lparr>arg_ps_props := b\<rparr>) =
        (case calc_z_explicit_implicit_helper env Pr Tr z_model (arg_zmodel a) (arg_guess a)
             (arg_newton_kwargs a) (arg_smart_guess a) of
          Inl e \<Rightarrow> Inl e
        | Inr Z \<Rightarrow>
          if b then Inr (Props [''z'' \<mapsto> PyFloat Z, ''Pr'' \<mapsto> PyFloat Pr, ''Tr'' \<mapsto> PyFloat Tr])
          else Inr (Z_value Z))" for b
        using calc_z_resolved [OF chk' zm' pt', of b] by (simp split: sum.splits)
      show ?thesis
      proof (cases "calc_z_explicit_implicit_helper env Pr Tr z_model (arg_zmodel a) (arg_guess a)
             (arg_newton_kwargs a) (arg_smart_guess a)")
        case (Inl e')
        then show ?thesis by (simp add: r)
      next
        case (Inr Z')
        then have ?A and ?B by (simp_all add: r)
        moreover have ?C
        proof
          assume "calc_z env (a\<lparr>arg_ps_props := False\<rparr>) = Inr (Z_value Z)"
          with Inr have Z: "Z' = Z" by (simp add: r)
          let ?d = "[''z'' \<mapsto> PyFloat Z, ''Pr'' \<mapsto> PyFloat Pr, ''Tr'' \<mapsto> PyFloat Tr]"
          have "calc_z env (a\<lparr>arg_ps_props := True\<rparr>) = Inr (Props ?d)"
            using Inr Z by (simp add: r)
          moreover have "?d ''z'' = Some (PyFloat Z)" "?d ''Pr'' = Some (PyFloat Pr)"
            "?d ''Tr'' = Some (PyFloat Tr)" by simp_all
          ultimately show "\<exists>d z_model Pr Tr.
               calc_z env (a\<lparr>arg_ps_props := True\<rparr>) = Inr (Props d) \<and>
               d ''z'' = Some (PyFloat Z) \<and> d ''Pr'' = Some (PyFloat Pr) \<and>
               d ''Tr'' = Some (PyFloat Tr) \<and>
               get_z_model env (arg_zmodel a) = Inr z_model \<and>
               (arg_Pr a = Some Pr \<and> arg_Tr a = Some Tr \<or>
                (arg_Pr a = None \<or> arg_Tr a = None) \<and>
                (\<exists>props. resolve_Tr_Pr env a = Inr (Tr, Pr, props))) \<and>
               calc_z_explicit_implicit_helper env Pr Tr z_model (arg_zmodel a) (arg_guess a)
                 (arg_newton_kwargs a) (arg_smart_guess a) = Inr Z"
            using zm pt Inr Z by blast
        qed
        ultimately show ?thesis by blast
      qed
    next
      case True
      have un': "arg_Pr (a\<lparr>arg_ps_props := b\<rparr>) = None \<or> arg_Tr (a\<lparr>arg_ps_props := b\<rparr>) = None" for b
        using True by simp
      have r: "calc_z env (a\<lparr>arg_ps_props := b\<rparr>) =
        (case resolve_Tr_Pr env a of
          Inl e \<Rightarrow> Inl e
        | Inr (Tr, Pr, pc_ps_props) \<Rightarrow>
          (case calc_z_explicit_implicit_helper env Pr Tr z_model (arg_zmodel a) (arg_guess a)
                  (arg_newton_kwargs a) (arg_smart_guess a) of
             Inl e \<Rightarrow> Inl e
           | Inr Z \<Rightarrow>
               if b
               then Inr (Props (([''z'' \<mapsto> PyFloat Z] ++ pc_ps_props)
                                  (''Tr'' \<mapsto> PyFloat Tr, ''Pr'' \<mapsto> PyFloat Pr)))
               else Inr (Z_value Z)))" for b
        using calc_z_unresolved [OF chk' zm' un', of b]
        by (simp add: resolve_Tr_Pr_ps_props split: sum.splits prod.splits)
      show ?thesis
      proof (cases "resolve_Tr_Pr env a")
        case (Inl e')
        then show ?thesis by (simp add: r)
      next
        case (Inr tpp)
        then obtain Tr Pr props where res: "resolve_Tr_Pr env a = Inr (Tr, Pr, props)"
          by (cases tpp) auto
        have noz: "props ''z'' = None" using assms res by (rule resolve_Tr_Pr_no_z)
        show ?thesis
        proof (cases "calc_z_explicit_implicit_helper env Pr Tr z_model (arg_zmodel a) (arg_guess a)
             (arg_newton_kwargs a) (arg_smart_guess a)")
          case (Inl e')
          then show ?thesis by (simp add: r res)
        next
          case (Inr Z')
          then have ?A and ?B by (simp_all add: r res)
          moreover have ?C
          proof
            assume "calc_z env (a\<lparr>arg_ps_props := False\<rparr>) = Inr (Z_value Z)"
            with Inr have Z: "Z' = Z" by (simp add: r res)
            let ?d = "([''z'' \<mapsto> PyFloat Z] ++ props)(''Tr'' \<mapsto> PyFloat Tr, ''Pr'' \<mapsto> PyFloat Pr)"
            have "calc_z env (a\<lparr>arg_ps_props := True\<rparr>) = Inr (Props ?d)"
              using Inr Z by (simp add: r res)
            moreover have "?d ''z'' = Some (PyFloat Z)" "?d ''Pr'' = Some (PyFloat Pr)"
              "?d ''Tr'' = Some (PyFloat Tr)" using noz by (simp_all add: map_add_def)
            ultimately show "\<exists>d z_model Pr Tr.
               calc_z env (a\<lparr>arg_ps_props := True\<rparr>) = Inr (Props d) \<and>
               d ''z'' = Some (PyFloat Z) \<and> d ''Pr'' = Some (PyFloat Pr) \<and>
               d ''Tr'' = Some (PyFloat Tr) \<and>
               get_z_model env (arg_zmodel a) = Inr z_model \<and>
               (arg_Pr a = Some Pr \<and> arg_Tr a = Some Tr \<or>
                (arg_Pr a = None \<or> arg_Tr a = None) \<and>
                (\<exists>props. resolve_Tr_Pr env a = Inr (Tr, Pr, props))) \<and>
               calc_z_explicit_implicit_helper env Pr Tr z_model (arg_zmodel a) (arg_guess a)
                 (arg_newton_kwargs a) (arg_smart_guess a) = Inr Z"
              using zm True res Inr Z by blast
          qed
          ultimately show ?thesis by blast
        qed
      qed
    qed
  qed
qed

lemma sample_guesses_in_range:
  assumes "2 / 10 \<le> Pr" "Pr < 15" "1 \<le> Tr" "Tr \<le> 3"
  shows "guess_candidates sample_env Pr Tr (default_guess None Pr) (default_smart_guess None)
     = Inr [85 / 100, 9 / 10, 9 / 10, 8 / 10, 1, 7 / 10, 6 / 10, 5 / 10, 4 / 10, 3 / 10, 2 / 10, 1 / 10]"
  using assms
  by (simp add: guess_candidates_def default_guess_def default_smart_guess_def
      check_working_Pr_Tr_range_def MODEL_RANGES_def get_z_model_def models_def sample_env_def
      sample_explicit_def construct_guess_list_order_def ladder_def Let_def)

lemma sample_solve_in_range:
  assumes "2 / 10 \<le> Pr" "Pr < 15" "1 \<le> Tr" "Tr \<le> 3"
  shows "calc_z_explicit_implicit_helper sample_env Pr Tr sample_residual ''DAK'' None None None
     = Inr (8 / 10)"
  by (simp add: calc_z_explicit_implicit_helper_def sample_guesses_in_range [OF assms] sample_attempt)

lemma sample_resolve:
  "resolve_Tr_Pr sample_env (calc_z_defaults\<lparr>arg_sg := Some (7 / 10), arg_P := Some 2010,
       arg_T := Some 75, arg_ps_props := b\<rparr>)
     = Inr (3 / 2, 5 / 2, [''Tpc'' \<mapsto> PyFloat 370, ''Ppc'' \<mapsto> PyFloat 660])"
  by (simp add: resolve_Tr_Pr_def calc_z_defaults_def sample_env_def sample_pc_def)

lemma sample_calc_z_from_gravity:
  "calc_z sample_env (calc_z_defaults\<lparr>arg_sg := Some (7 / 10), arg_P := Some 2010,
       arg_T := Some 75, arg_ps_props := b\<rparr>)
     = (if b then Inr (Props (([''z'' \<mapsto> PyFloat (8 / 10)] ++
                 [''Tpc'' \<mapsto> PyFloat 370, ''Ppc'' \<mapsto> PyFloat 660])
                 (''Tr'' \<mapsto> PyFloat (3 / 2), ''Pr'' \<mapsto> PyFloat (5 / 2))))
        else Inr (Z_value (8 / 10)))"
proof -
  have d: "get_z_model sample_env ''DAK'' = Inr sample_residual"
    by (simp add: get_z_model_def models_def sample_env_def)
  have z: "arg_zmodel calc_z_defaults = ''DAK''" "arg_guess calc_z_defaults = None"
    "arg_newton_kwargs calc_z_defaults = None" "arg_smart_guess calc_z_defaults = None"
    "arg_Pr calc_z_defaults = None"
    by (simp_all add: calc_z_defaults_def)
  have s: "calc_z_explicit_implicit_helper sample_env (5 / 2) (3 / 2) sample_residual ''DAK'' None None None
     = Inr (8 / 10)"
    by (rule sample_solve_in_range) simp_all
  show ?thesis
    by (simp add: calc_z_def check_explicit_args_def z d sample_resolve s)
qed

lemma sample_pc_props_ok: "pc_props_ok sample_env"
  by (auto simp: pc_props_ok_def sample_env_def sample_pc_def)

theorem calc_z_ps_props_bundle_witness:
  "pc_props_ok sample_env \<and>
   calc_z sample_env (calc_z_defaults\<lparr>arg_sg := Some (7 / 10), arg_P := Some 2010,
       arg_T := Some 75, arg_ps_props := False\<rparr>) = Inr (Z_value (8 / 10)) \<and>
   (\<exists>d. calc_z sample_env (calc_z_defaults\<lparr>arg_sg := Some (7 / 10), arg_P := Some 2010,
       arg_T := Some 75, arg_ps_props := True\<rparr>) = Inr (Props d) \<and>
      d ''z'' = Some (PyFloat (8 / 10)) \<and> d ''Pr'' = Some (PyFloat (5 / 2)) \<and>
      d ''Tr'' = Some (PyFloat (3 / 2)))"
proof -
  let ?a = "calc_z_defaults\<lparr>arg_sg := Some (7 / 10), arg_P := Some 2010, arg_T := Some 75\<rparr>"
  have r0: "calc_z sample_env (?a\<lparr>arg_ps_props := False\<rparr>) = Inr (Z_value (8 / 10))"
    using sample_calc_z_from_gravity [of False] by simp
  from calc_z_ps_props_bundle [OF sample_pc_props_ok, of ?a _ _ "8 / 10"] r0
  obtain d where d: "calc_z sample_env (?a\<lparr>arg_ps_props := True\<rparr>) = Inr (Props d)"
    and z: "d ''z'' = Some (PyFloat (8 / 10))" by blast
  from d have "d = ([''z'' \<mapsto> PyFloat (8 / 10)] ++
                 [''Tpc'' \<mapsto> PyFloat 370, ''Ppc'' \<mapsto> PyFloat 660])
                 (''Tr'' \<mapsto> PyFloat (3 / 2), ''Pr'' \<mapsto> PyFloat (5 / 2))"
    using sample_calc_z_from_gravity [of True] by simp
  then have "d ''Pr'' = Some (PyFloat (5 / 2))" "d ''Tr'' = Some (PyFloat (3 / 2))"
    by simp_all
  with d z r0 sample_pc_props_ok show ?thesis by auto
qed


subsection \<open>Reduced inputs supplied by the caller\<close>

lemma newton_attempt_pc_irrelevant:
  "newton_attempt (env\<lparr>Piper_init := pinit, Sutton_init := sinit\<rparr>) f Pr Tr kw g
     = newton_attempt env f Pr Tr kw g"
  by (simp add: newton_attempt_def split: option.splits)

lemma try_guesses_pc_irrelevant:
  "try_guesses (env\<lparr>Piper_init := pinit, Sutton_init := sinit\<rparr>) f Pr Tr kw gs
     = try_guesses env f Pr Tr kw gs"
  by (induction gs) (simp_all add: newton_attempt_pc_irrelevant split: sum.splits)

lemma get_z_model_pc_irrelevant:
  "get_z_model (env\<lparr>Piper_init := pinit, Sutton_init := sinit\<rparr>) name = get_z_model env name"
  by (simp add: get_z_model_def models_def)

lemma construct_guess_list_order_pc_irrelevant:
  "construct_guess_list_order (env\<lparr>Piper_init := pinit, Sutton_init := sinit\<rparr>) g
     = construct_guess_list_order env g"
  by (simp add: construct_guess_list_order_def)

lemma guess_candidates_pc_irrelevant:
  "guess_candidates (env\<lparr>Piper_init := pinit, Sutton_init := sinit\<rparr>) Pr Tr g sg
     = guess_candidates env Pr Tr g sg"
  unfolding guess_candidates_def get_z_model_pc_irrelevant construct_guess_list_order_pc_irrelevant
  by (rule refl)

lemma helper_pc_irrelevant:
  "calc_z_explicit_implicit_helper (env\<lparr>Piper_init := pinit, Sutton_init := sinit\<rparr>) Pr Tr f zs g kw sg
     = calc_z_explicit_implicit_helper env Pr Tr f zs g kw sg"
  unfolding calc_z_explicit_implicit_helper_def guess_candidates_pc_irrelevant
    try_guesses_pc_irrelevant
  by (rule refl)


lemma check_explicit_args_raw_inputs:
  "check_explicit_args (a\<lparr>arg_sg := sg', arg_P := P', arg_T := T', arg_H2S := H2S',
      arg_CO2 := CO2', arg_N2 := N2', arg_pmodel := pmodel', arg_ignore_conflict := ic'\<rparr>)
     = check_explicit_args a"
  by (simp add: check_explicit_args_def)

text \<open>
  C10. When \<open>Pr\<close> and \<open>Tr\<close> are both supplied, the outcome of \<^verbatim>\<open>calc_z\<close> (value or
  exception) is the same whatever \<^verbatim>\<open>sg\<close>, \<^verbatim>\<open>P\<close>, \<^verbatim>\<open>T\<close>, \<^verbatim>\<open>H2S\<close>, \<^verbatim>\<open>CO2\<close>,
  \<^verbatim>\<open>N2\<close>, \<^verbatim>\<open>pmodel\<close> and \<^verbatim>\<open>ignore_conflict\<close> are, and whatever the pseudo-critical
  classes would do: the dispatch, with its check of \<^verbatim>\<open>sutton\<close> against \<^verbatim>\<open>N2\<close>, is not
  reached.
\<close>

theorem calc_z_reduced_inputs_given:
  assumes "arg_Pr a = Some Pr" and "arg_Tr a = Some Tr"
  shows "calc_z (env\<lparr>Piper_init := pinit, Sutton_init := sinit\<rparr>)
           (a\<lparr>arg_sg := sg', arg_P := P', arg_T := T', arg_H2S := H2S', arg_CO2 := CO2',
              arg_N2 := N2', arg_pmodel := pmodel', arg_ignore_conflict := ic'\<rparr>)
         = calc_z env a"
proof -
  let ?a = "a\<lparr>arg_sg := sg', arg_P := P', arg_T := T', arg_H2S := H2S', arg_CO2 := CO2',
              arg_N2 := N2', arg_pmodel := pmodel', arg_ignore_conflict := ic'\<rparr>"
  let ?env = "env\<lparr>Piper_init := pinit, Sutton_init := sinit\<rparr>"
  have c: "check_explicit_args ?a = check_explicit_args a"
    by (rule check_explicit_args_raw_inputs)
  have g: "get_z_model ?env (arg_zmodel ?a) = get_z_model env (arg_zmodel a)"
    by (simp add: get_z_model_pc_irrelevant)
  have pt: "arg_Pr ?a = Some Pr" "arg_Tr ?a = Some Tr"
    using assms by simp_all
  show ?thesis
  proof (cases "check_explicit_args a")
    case (Some e)
    then show ?thesis by (simp add: calc_z_def c)
  next
    case None
    note chk = this
    show ?thesis
    proof (cases "get_z_model env (arg_zmodel a)")
      case (Inl e)
      with chk show ?thesis by (simp add: calc_z_def c get_z_model_pc_irrelevant)
    next
      case (Inr z_model)
      have chk': "check_explicit_args ?a = None" using chk c by simp
      have zm': "get_z_model ?env (arg_zmodel ?a) = Inr z_model" using Inr g by simp
      show ?thesis
        unfolding calc_z_resolved [OF chk Inr assms] calc_z_resolved [OF chk' zm' pt]
          helper_pc_irrelevant
        by (simp split: sum.splits)
    qed
  qed
qed

lemma sample_calc_z_reduced:
  "calc_z sample_env (calc_z_defaults\<lparr>arg_Pr := Some (3 / 2), arg_Tr := Some (3 / 2)\<rparr>)
     = Inr (Z_value (8 / 10))"
proof -
  have d: "get_z_model sample_env ''DAK'' = Inr sample_residual"
    by (simp add: get_z_model_def models_def sample_env_def)
  have z: "arg_zmodel calc_z_defaults = ''DAK''" "arg_guess calc_z_defaults = None"
    "arg_newton_kwargs calc_z_defaults = None" "arg_smart_guess calc_z_defaults = None"
    "arg_ps_props calc_z_defaults = False"
    by (simp_all add: calc_z_defaults_def)
  show ?thesis
    by (simp add: calc_z_def check_explicit_args_def z d sample_solve)
qed

theorem calc_z_reduced_inputs_given_witness:
  "arg_Pr (calc_z_defaults\<lparr>arg_Pr := Some (3 / 2), arg_Tr := Some (3 / 2)\<rparr>) = Some (3 / 2) \<and>
   arg_Tr (calc_z_defaults\<lparr>arg_Pr := Some (3 / 2), arg_Tr := Some (3 / 2)\<rparr>) = Some (3 / 2) \<and>
   calc_z (sample_env\<lparr>Piper_init := \<lambda>args. Inl (Raised ''ValueError''),
                      Sutton_init := \<lambda>args. Inl (Raised ''ValueError'')\<rparr>)
     (calc_z_defaults\<lparr>arg_Pr := Some (3 / 2), arg_Tr := Some (3 / 2),
        arg_sg := Some (7 / 10), arg_P := Some 2010, arg_T := Some 75, arg_H2S := None,
        arg_CO2 := None, arg_N2 := Some (5 / 100), arg_pmodel := ''sutton'',
        arg_ignore_conflict := True\<rparr>)
     = Inr (Z_value (8 / 10))"
proof -
  have p: "arg_Pr (calc_z_defaults\<lparr>arg_Pr := Some (3 / 2), arg_Tr := Some (3 / 2)\<rparr>) = Some (3 / 2)"
    and t: "arg_Tr (calc_z_defaults\<lparr>arg_Pr := Some (3 / 2), arg_Tr := Some (3 / 2)\<rparr>) = Some (3 / 2)"
    by simp_all
  from calc_z_reduced_inputs_given [OF p t, where env = sample_env
      and pinit = "\<lambda>args. Inl (Raised ''ValueError'')"
      and sinit = "\<lambda>args. Inl (Raised ''ValueError'')"
      and sg' = "Some (7 / 10)" and P' = "Some 2010" and T' = "Some 75" and H2S' = None
      and CO2' = None and N2' = "Some (5 / 100)" and pmodel' = "''sutton''" and ic' = True]
  show ?thesis by (simp add: sample_calc_z_reduced)
qed

subsection \<open>The candidate sequence\<close>

lemma py_min_key_mem: "py_min_key key b ys \<in> set (b # ys)"
  by (induction ys arbitrary: b) auto

lemma insert_set_remove1: "m \<in> set t \<Longrightarrow> insert m (set (remove1 m t)) = set t"
  by (induction t) auto

lemma set_reorder_loop: "set (reorder_loop g t r) = set r \<union> set t"
proof (induction g t r rule: reorder_loop.induct)
  case (1 guess t reordered)
  show ?case
  proof (cases t)
    case Nil
    then show ?thesis by simp
  next
    case (Cons x xs)
    define m where "m = py_min_key (\<lambda>x. \<bar>x - guess\<bar>) x xs"
    have mem: "m \<in> set t" unfolding m_def Cons by (rule py_min_key_mem)
    have "set (reorder_loop guess (remove1 m t) (reordered @ [m]))
        = set (reordered @ [m]) \<union> set (remove1 m t)"
      using "1.IH" [OF Cons m_def] .
    moreover have "insert m (set (remove1 m t)) = set t"
      using mem by (rule insert_set_remove1)
    moreover have "reorder_loop guess t reordered
        = reorder_loop guess (remove1 m t) (reordered @ [m])"
      using Cons m_def by (subst reorder_loop.simps) (simp add: Let_def)
    ultimately show ?thesis by auto
  qed
qed

lemma construct_guess_list_order_set:
  assumes "set_order_ok (list_set env)"
  shows "distinct (construct_guess_list_order env guess) \<and>
         set (construct_guess_list_order env guess) = insert guess (set ladder)"
  using assms
  by (simp add: construct_guess_list_order_def set_order_ok_def set_reorder_loop
      del: reorder_loop.simps)

lemma check_kareem_range:
  "check_working_Pr_Tr_range [Pr] [Tr] ''kareem''
     = Inr (2 / 10 \<le> Pr \<and> Pr \<le> 15 \<and> 1 \<le> Tr \<and> Tr \<le> 3)"
  by (simp add: check_working_Pr_Tr_range_def MODEL_RANGES_def)

lemma get_z_model_kareem: "get_z_model env ''kareem'' = Inr (kareem env)"
  by (simp add: get_z_model_def models_def)

lemma guess_candidates_unfold:
  "guess_candidates env Pr Tr guess sg =
     (if sg then
        if 2 / 10 \<le> Pr \<and> Pr \<le> 15 \<and> 1 \<le> Tr \<and> Tr \<le> 3 then
          (case kareem env None Pr Tr of
             Inl e \<Rightarrow> Inl e
           | Inr g' \<Rightarrow> Inr (g' # guess # construct_guess_list_order env guess))
        else Inr (guess # construct_guess_list_order env guess)
      else Inr (construct_guess_list_order env guess))"
proof -
  define b where "b \<longleftrightarrow> 2 / 10 \<le> Pr \<and> Pr \<le> 15 \<and> 1 \<le> Tr \<and> Tr \<le> 3"
  have c: "check_working_Pr_Tr_range [Pr] [Tr] ''kareem'' = Inr b"
    unfolding b_def by (rule check_kareem_range)
  show ?thesis
    unfolding guess_candidates_def c get_z_model_kareem Let_def b_def [symmetric]
    by (cases b) (simp_all split: sum.splits)
qed

text \<open>
  C2, as amended. Let \<open>tail\<close> be what \<^verbatim>\<open>_construct_guess_list_order\<close> returns: it has
  no repetition and its elements are the guess and the ten ladder values. With smart guess
  on, the candidate sequence is the answer of \<^verbatim>\<open>kareem\<close> (only when \<open>Pr\<close> and \<open>Tr\<close>
  are in its working range), then the guess, then \<open>tail\<close>; so both come before every
  ladder value, and the guess is met a second time inside \<open>tail\<close>. With smart guess off
  the sequence is \<open>tail\<close> alone. Nothing is said about the order inside \<open>tail\<close>.
\<close>

theorem guess_candidates_shape:
  assumes "set_order_ok (list_set env)"
    and "guess_candidates env Pr Tr guess sg = Inr gs"
  shows "\<exists>tail. distinct tail \<and> set tail = insert guess (set ladder) \<and>
           (if sg then
              if 2 / 10 \<le> Pr \<and> Pr \<le> 15 \<and> 1 \<le> Tr \<and> Tr \<le> 3
              then \<exists>g'. kareem env None Pr Tr = Inr g' \<and> gs = g' # guess # tail
              else gs = guess # tail
            else gs = tail)"
proof -
  let ?tail = "construct_guess_list_order env guess"
  have t: "distinct ?tail \<and> set ?tail = insert guess (set ladder)"
    using assms(1) by (rule construct_guess_list_order_set)
  have "if sg then
              if 2 / 10 \<le> Pr \<and> Pr \<le> 15 \<and> 1 \<le> Tr \<and> Tr \<le> 3
              then \<exists>g'. kareem env None Pr Tr = Inr g' \<and> gs = g' # guess # ?tail
              else gs = guess # ?tail
            else gs = ?tail"
    using assms(2) unfolding guess_candidates_unfold
    by (auto split: if_splits sum.splits)
  with t show ?thesis by blast
qed

lemma sample_set_order_ok: "set_order_ok (list_set sample_env)"
  by (simp add: set_order_ok_def sample_env_def)

theorem guess_candidates_shape_witness:
  "set_order_ok (list_set sample_env) \<and>
   guess_candidates sample_env (3 / 2) (3 / 2) (9 / 10) True
     = Inr [85 / 100, 9 / 10, 9 / 10, 8 / 10, 1, 7 / 10, 6 / 10, 5 / 10, 4 / 10, 3 / 10, 2 / 10, 1 / 10] \<and>
   (\<exists>tail. distinct tail \<and> set tail = insert (9 / 10) (set ladder) \<and>
      [85 / 100, 9 / 10, 9 / 10, 8 / 10, 1, 7 / 10, 6 / 10, 5 / 10, 4 / 10, 3 / 10, 2 / 10, 1 / 10]
        = 85 / 100 # 9 / 10 # tail)"
proof -
  have g: "guess_candidates sample_env (3 / 2) (3 / 2) (9 / 10) True
     = Inr [85 / 100, 9 / 10, 9 / 10, 8 / 10, 1, 7 / 10, 6 / 10, 5 / 10, 4 / 10, 3 / 10, 2 / 10, 1 / 10]"
    using sample_guesses by (simp add: default_guess_def default_smart_guess_def)
  have k: "kareem sample_env None (3 / 2) (3 / 2) = Inr (85 / 100)"
    by (simp add: sample_env_def sample_explicit_def)
  from guess_candidates_shape [OF sample_set_order_ok g]
  have "\<exists>tail. distinct tail \<and> set tail = insert (9 / 10) (set ladder) \<and>
      [85 / 100, 9 / 10, 9 / 10, 8 / 10, 1, 7 / 10, 6 / 10, 5 / 10, 4 / 10, 3 / 10, 2 / 10, 1 / 10]
        = 85 / 100 # 9 / 10 # tail"
    by (simp add: k)
  with sample_set_order_ok g show ?thesis by blast
qed

text \<open>
  As stated, C2 asks for a sequence without repetition. A call with \<open>Pr = 20\<close> and no
  guess tries \<open>2\<close> twice: once from \<^verbatim>\<open>[guess]\<close> and once from the list appended to it.
\<close>

theorem guess_candidates_duplicate_counterexample:
  "guess_candidates sample_env 20 (3 / 2) (default_guess None 20) (default_smart_guess None)
     = Inr [2, 2, 1, 9 / 10, 8 / 10, 7 / 10, 6 / 10, 5 / 10, 4 / 10, 3 / 10, 2 / 10, 1 / 10] \<and>
   \<not> distinct [2, 2, 1, 9 / 10, 8 / 10, 7 / 10, 6 / 10, 5 / 10, 4 / 10, 3 / 10, 2 / 10, 1 / 10 :: real]"
  by (simp add: guess_candidates_unfold default_guess_def default_smart_guess_def
      construct_guess_list_order_def ladder_def Let_def sample_env_def)

subsection \<open>The order of the fallback ladder\<close>

text \<open>
  C3. The loop builds the list in order of distance from the guess: ascending for the
  guess \<open>0.1\<close>, descending for the guess \<open>2\<close>. The function returns
  \<^verbatim>\<open>list(set(...))\<close> of that list, so the order of the result is the iteration order of
  the set. There is an iteration order, within what Python promises of a set, under which
  neither result is in order of distance from the guess as the docstring announces: the
  one shown, for which \<open>0.4\<close> comes before \<open>0.2\<close> for the guess \<open>0.1\<close>, and \<open>0.9\<close>
  comes before \<open>1\<close> and before the guess for the guess \<open>2\<close>.
\<close>

theorem construct_guess_list_order_not_in_distance_order:
  "reorder_loop (1 / 10) ladder [1 / 10]
     = [1 / 10, 1 / 10, 2 / 10, 3 / 10, 4 / 10, 5 / 10, 6 / 10, 7 / 10, 8 / 10, 9 / 10, 1] \<and>
   reorder_loop 2 ladder [2]
     = [2, 1, 9 / 10, 8 / 10, 7 / 10, 6 / 10, 5 / 10, 4 / 10, 3 / 10, 2 / 10, 1 / 10] \<and>
   (\<exists>ls. set_order_ok ls \<and>
      construct_guess_list_order (env\<lparr>list_set := ls\<rparr>) (1 / 10)
        = [1 / 10, 4 / 10, 3 / 10, 2 / 10, 5 / 10, 6 / 10, 7 / 10, 8 / 10, 9 / 10, 1] \<and>
      \<not> sorted_wrt (\<lambda>x y. \<bar>x - 1 / 10\<bar> \<le> \<bar>y - 1 / 10\<bar>)
          (construct_guess_list_order (env\<lparr>list_set := ls\<rparr>) (1 / 10)) \<and>
      construct_guess_list_order (env\<lparr>list_set := ls\<rparr>) 2
        = [9 / 10, 1, 2, 8 / 10, 7 / 10, 6 / 10, 5 / 10, 4 / 10, 3 / 10, 2 / 10, 1 / 10] \<and>
      \<not> sorted_wrt (\<lambda>x y. \<bar>x - 2\<bar> \<le> \<bar>y - 2\<bar>)
          (construct_guess_list_order (env\<lparr>list_set := ls\<rparr>) 2))"
proof -
  let ?A = "[1 / 10, 1 / 10, 2 / 10, 3 / 10, 4 / 10, 5 / 10, 6 / 10, 7 / 10, 8 / 10, 9 / 10, 1 :: real]"
  let ?A' = "[1 / 10, 4 / 10, 3 / 10, 2 / 10, 5 / 10, 6 / 10, 7 / 10, 8 / 10, 9 / 10, 1 :: real]"
  let ?B = "[2, 1, 9 / 10, 8 / 10, 7 / 10, 6 / 10, 5 / 10, 4 / 10, 3 / 10, 2 / 10, 1 / 10 :: real]"
  let ?B' = "[9 / 10, 1, 2, 8 / 10, 7 / 10, 6 / 10, 5 / 10, 4 / 10, 3 / 10, 2 / 10, 1 / 10 :: real]"
  define ls :: "real list \<Rightarrow> real list" where
    "ls xs = (if set xs = set ?A then ?A' else if set xs = set ?B then ?B' else remdups xs)" for xs
  have a: "reorder_loop (1 / 10) ladder [1 / 10] = ?A"
    by (simp add: ladder_def Let_def)
  have b: "reorder_loop 2 ladder [2] = ?B"
    by (simp add: ladder_def Let_def)
  have sA: "set ?A' = set ?A" by auto
  have sB: "set ?B' = set ?B" by auto
  have "(2::real) \<in> set ?B" and "(2::real) \<notin> set ?A" by simp_all
  then have nAB: "set ?A \<noteq> set ?B" by blast
  have ok: "set_order_ok ls"
    unfolding set_order_ok_def
  proof (intro allI)
    fix xs
    show "distinct (ls xs) \<and> set (ls xs) = set xs"
    proof (cases "set xs = set ?A")
      case True
      have "distinct ?A'" by simp
      with True sA show ?thesis unfolding ls_def by simp
    next
      case False
      note nA = this
      show ?thesis
      proof (cases "set xs = set ?B")
        case True
        have "distinct ?B'" by simp
        with True nA sB show ?thesis unfolding ls_def by simp
      next
        case False
        with nA show ?thesis unfolding ls_def by simp
      qed
    qed
  qed
  have ca: "construct_guess_list_order (env\<lparr>list_set := ls\<rparr>) (1 / 10) = ?A'"
    unfolding construct_guess_list_order_def Let_def a by (simp add: ls_def)
  have cb: "construct_guess_list_order (env\<lparr>list_set := ls\<rparr>) 2 = ?B'"
    unfolding construct_guess_list_order_def Let_def b using nAB by (simp add: ls_def)
  have na: "\<not> sorted_wrt (\<lambda>x y. \<bar>x - 1 / 10\<bar> \<le> \<bar>y - 1 / 10\<bar>) ?A'" by simp
  have nb: "\<not> sorted_wrt (\<lambda>x y. \<bar>x - 2\<bar> \<le> \<bar>y - 2\<bar>) ?B'" by simp
  from a b ok ca cb na nb show ?thesis by (metis (no_types, lifting))
qed

subsection \<open>Default guess\<close>

text \<open>
  C6. When an implicit model is solved and \<^verbatim>\<open>guess\<close> is \<^verbatim>\<open>None\<close>, the candidate
  sequence is built from the guess \<open>0.9\<close> for \<open>Pr < 15\<close> and from the guess \<open>2\<close> from
  \<open>Pr = 15\<close> on, and the result of the helper is the result of the loop over that
  sequence.
\<close>

theorem default_guess_when_unset:
  assumes "zmodel_str \<noteq> ''kareem''"
  shows "calc_z_explicit_implicit_helper env Pr Tr f zmodel_str None kw sg =
     (case guess_candidates env Pr Tr (if Pr < 15 then 9 / 10 else 2) (default_smart_guess sg) of
        Inl e \<Rightarrow> Inl e
      | Inr guesses \<Rightarrow>
          (case try_guesses env f Pr Tr kw guesses of
             None \<Rightarrow> Inl (RuntimeError ''Failed to converge'')
           | Some Z \<Rightarrow> Inr Z))"
  using assms by (simp add: calc_z_explicit_implicit_helper_def default_guess_def)

lemma sample_guesses_default:
  "guess_candidates sample_env 15 2 2 True
     = Inr [85 / 100, 2, 2, 1, 9 / 10, 8 / 10, 7 / 10, 6 / 10, 5 / 10, 4 / 10, 3 / 10, 2 / 10, 1 / 10]"
  "guess_candidates sample_env (149 / 10) 2 (9 / 10) True
     = Inr [85 / 100, 9 / 10, 9 / 10, 8 / 10, 1, 7 / 10, 6 / 10, 5 / 10, 4 / 10, 3 / 10, 2 / 10, 1 / 10]"
  by (simp_all add: guess_candidates_unfold construct_guess_list_order_def ladder_def Let_def
      sample_env_def sample_explicit_def)

lemma sample_attempt_high:
  "newton_attempt sample_env sample_residual_high Pr Tr None g =
     (if g = 2 then Inr g else Inl (RuntimeError ''Failed to converge after iterations''))"
  by (simp add: newton_attempt_def sample_env_def sample_newton_def sample_residual_high_def)

theorem default_guess_when_unset_witness:
  "''DAK'' \<noteq> ''kareem'' \<and>
   calc_z_explicit_implicit_helper sample_env 15 2 sample_residual_high ''DAK'' None None None
     = Inr 2 \<and>
   calc_z_explicit_implicit_helper sample_env (149 / 10) 2 sample_residual_high ''DAK'' None None None
     = Inl (RuntimeError ''Failed to converge'')"
  using default_guess_when_unset [of "''DAK''" sample_env 15 2 sample_residual_high None None]
    default_guess_when_unset [of "''DAK''" sample_env "149 / 10" 2 sample_residual_high None None]
  by (simp add: default_smart_guess_def sample_guesses_default sample_attempt_high)

end
